theory Spec2Isabelle
  imports Main "HOL-Library.Sublist"
begin

section \<open>Values read through reflection\<close>

text \<open>
  \<^verbatim>\<open>DocumentationAspect\<close> reads the tag manager of a resource and the private
  \<^verbatim>\<open>tags\<close> field of that manager through \<^verbatim>\<open>(x as any).tags\<close>, so what it
  finds there is an untyped JavaScript value.  The values that matter to the code are
  \<^verbatim>\<open>undefined\<close>, \<^verbatim>\<open>null\<close>, a boolean, a plain object with its own enumerable
  string-keyed properties (kept in insertion order), and a \<^verbatim>\<open>Map\<close> with its entries.
  The \<^verbatim>\<open>TagManager\<close> of aws-cdk-lib keeps the tags of a resource in a \<^verbatim>\<open>Map\<close>
  held by its private field \<^verbatim>\<open>tags\<close>; the entries of a \<^verbatim>\<open>Map\<close> are not
  properties of the object.
\<close>

datatype error = TypeError

datatype js_value =
    JUndefined
  | JNull
  | JBool bool
  | JObject "(string \<times> string) list"
  | JMap "(string \<times> string) list"

text \<open>JavaScript truthiness, as used by \<^verbatim>\<open>!x\<close> and \<^verbatim>\<open>x && y\<close>.\<close>

fun truthy :: "js_value \<Rightarrow> bool" where
  "truthy JUndefined = False"
| "truthy JNull = False"
| "truthy (JBool b) = b"
| "truthy (JObject kvs) = True"
| "truthy (JMap kvs) = True"

text \<open>
  \<^verbatim>\<open>Object.keys\<close>: throws a \<^verbatim>\<open>TypeError\<close> on \<^verbatim>\<open>undefined\<close> and \<^verbatim>\<open>null\<close>,
  gives no key for a boolean, the own property names of a plain object, and no key
  for a \<^verbatim>\<open>Map\<close>, whatever its entries.
\<close>

fun objectKeys :: "js_value \<Rightarrow> error + string list" where
  "objectKeys JUndefined = Inl TypeError"
| "objectKeys JNull = Inl TypeError"
| "objectKeys (JBool b) = Inr []"
| "objectKeys (JObject kvs) = Inr (map fst kvs)"
| "objectKeys (JMap kvs) = Inr []"

section \<open>Constructs\<close>

record TagManager =
  tags :: js_value

text \<open>
  A \<^verbatim>\<open>CfnResource\<close>: its CloudFormation type, \<^verbatim>\<open>node.node.path\<close>, and what
  \<^verbatim>\<open>(resource as any).tags\<close> holds (\<open>None\<close> when the resource has no tag manager).
\<close>

record cfn_resource =
  cfnResourceType :: string
  nodePath :: string
  resourceTags :: "TagManager option"

text \<open>\<^verbatim>\<open>node instanceof CfnResource\<close> is the constructor test.\<close>

datatype IConstruct =
    Construct string
  | CfnResource cfn_resource

section \<open>Annotations\<close>

datatype severity = Warning | Error

record annotation =
  level :: severity
  scope :: string
  message :: string

text \<open>
  \<^verbatim>\<open>Annotations.of(node).addError\<close> and \<^verbatim>\<open>addWarning\<close> attach a message to the
  node; the state is the sequence of annotations attached so far, each with the path of
  its node. Both go through \<^verbatim>\<open>addMessage\<close> of aws-cdk-lib, which looks for an entry
  of the node with the same text,
  \<^verbatim>\<open>!this.scope.node.metadata.find((x) => x.data === message)\<close>, and attaches the
  message only when there is none, whatever the level of the entry found.
\<close>

definition addMessage ::
  "severity \<Rightarrow> cfn_resource \<Rightarrow> string \<Rightarrow> annotation list \<Rightarrow> annotation list" where
  "addMessage lvl node msg anns =
     (if find (\<lambda>x. scope x = nodePath node \<and> message x = msg) anns = None
      then anns @ [\<lparr>level = lvl, scope = nodePath node, message = msg\<rparr>]
      else anns)"

definition addError :: "cfn_resource \<Rightarrow> string \<Rightarrow> annotation list \<Rightarrow> annotation list" where
  "addError node msg anns = addMessage Error node msg anns"

definition addWarning :: "cfn_resource \<Rightarrow> string \<Rightarrow> annotation list \<Rightarrow> annotation list" where
  "addWarning node msg anns = addMessage Warning node msg anns"

section \<open>DocumentationAspect\<close>

record DocumentationAspectProps =
  props_requiredTags :: "string list"
  props_strict :: "bool option"
  props_excludeResourceTypes :: "string list option"

record DocumentationAspect =
  requiredTags :: "string list"
  strict :: bool
  excludeResourceTypes :: "string list"

text \<open>The constructor; \<^verbatim>\<open>??\<close> supplies the defaults.\<close>

definition newDocumentationAspect :: "DocumentationAspectProps \<Rightarrow> DocumentationAspect" where
  "newDocumentationAspect props =
     \<lparr>requiredTags = props_requiredTags props,
      strict = (case props_strict props of None \<Rightarrow> False | Some b \<Rightarrow> b),
      excludeResourceTypes =
        (case props_excludeResourceTypes props of None \<Rightarrow> [] | Some ts \<Rightarrow> ts)\<rparr>"

definition nonTaggableResources :: "string list" where
  "nonTaggableResources =
     [''AWS::CloudFormation::Output'', ''AWS::CDK::Metadata'', ''Custom::CDKBucketDeployment'']"

definition getResourceTags :: "cfn_resource \<Rightarrow> TagManager option" where
  "getResourceTags resource = resourceTags resource"

text \<open>
  \<^verbatim>\<open>hasTag\<close>: \<^verbatim>\<open>if (!tags) return false\<close>, then
  \<^verbatim>\<open>return tagsField && Object.keys(tagsField).includes(tagKey)\<close>, where \<^verbatim>\<open>&&\<close>
  yields its left operand when that is falsy and does not evaluate the right one.
\<close>

definition hasTag :: "TagManager option \<Rightarrow> string \<Rightarrow> error + js_value" where
  "hasTag tgs tagKey =
     (case tgs of
        None \<Rightarrow> Inr (JBool False)
      | Some tm \<Rightarrow>
          (let tagsField = tags tm in
           if \<not> truthy tagsField then Inr tagsField
           else (case objectKeys tagsField of
                   Inl e \<Rightarrow> Inl e
                 | Inr ks \<Rightarrow> Inr (JBool (tagKey \<in> set ks)))))"

text \<open>
  The loop \<^verbatim>\<open>for (const requiredTag of this.requiredTags)\<close>, pushing every tag for
  which \<^verbatim>\<open>!this.hasTag(tags, requiredTag)\<close> onto \<^verbatim>\<open>missingTags\<close>.
\<close>

fun collectMissingTags ::
  "TagManager option \<Rightarrow> string list \<Rightarrow> string list \<Rightarrow> error + string list" where
  "collectMissingTags tgs [] missingTags = Inr missingTags"
| "collectMissingTags tgs (requiredTag # rest) missingTags =
     (case hasTag tgs requiredTag of
        Inl e \<Rightarrow> Inl e
      | Inr present \<Rightarrow>
          collectMissingTags tgs rest
            (if \<not> truthy present then missingTags @ [requiredTag] else missingTags))"

text \<open>\<^verbatim>\<open>Array.prototype.join\<close> on strings.\<close>

fun join :: "string \<Rightarrow> string list \<Rightarrow> string" where
  "join sep [] = []"
| "join sep [x] = x"
| "join sep (x # y # ys) = x @ sep @ join sep (y # ys)"

definition missingTagsMessage :: "cfn_resource \<Rightarrow> string list \<Rightarrow> string" where
  "missingTagsMessage node missingTags =
     ''Risorsa '' @ [CHR 0x27] @ nodePath node @ [CHR 0x27] @ '' ('' @ cfnResourceType node
       @ '') manca dei seguenti tag di documentazione: '' @ join '', '' missingTags"

definition visit ::
  "DocumentationAspect \<Rightarrow> IConstruct \<Rightarrow> annotation list \<Rightarrow> error + annotation list" where
  "visit this node anns =
     (case node of
        Construct p \<Rightarrow> Inr anns
      | CfnResource r \<Rightarrow>
          if cfnResourceType r \<in> set (excludeResourceTypes this) then Inr anns
          else if cfnResourceType r \<in> set nonTaggableResources then Inr anns
          else (case collectMissingTags (getResourceTags r) (requiredTags this) [] of
                  Inl e \<Rightarrow> Inl e
                | Inr missingTags \<Rightarrow>
                    if length missingTags > 0 then
                      (let msg = missingTagsMessage r missingTags in
                       if strict this then Inr (addError r msg anns)
                       else Inr (addWarning r msg anns))
                    else Inr anns))"

text \<open>
  Whether the aspect treats a resource as able to carry tags: the code decides it by the
  resource type alone, against the fixed list \<^verbatim>\<open>nonTaggableResources\<close>.
\<close>

definition taggable :: "cfn_resource \<Rightarrow> bool" where
  "taggable r = (cfnResourceType r \<notin> set nonTaggableResources)"

text \<open>
  The keys of the tag map of a resource: the keys of the entries its tag manager holds,
  in the \<^verbatim>\<open>Map\<close> of a \<^verbatim>\<open>TagManager\<close> or as the properties of a plain object;
  none when there is no tag manager or its \<^verbatim>\<open>tags\<close> field holds neither.
\<close>

definition nodeTagKeys :: "TagManager option \<Rightarrow> string list" where
  "nodeTagKeys tgs =
     (case tgs of
        None \<Rightarrow> []
      | Some tm \<Rightarrow>
          (case tags tm of
             JMap kvs \<Rightarrow> map fst kvs
           | JObject kvs \<Rightarrow> map fst kvs
           | _ \<Rightarrow> []))"

text \<open>
  The keys that \<^verbatim>\<open>Object.keys\<close> finds on the \<^verbatim>\<open>tags\<close> field: the properties of a
  plain object, and nothing else.
\<close>

definition reflectedKeys :: "TagManager option \<Rightarrow> string list" where
  "reflectedKeys tgs =
     (case tgs of
        None \<Rightarrow> []
      | Some tm \<Rightarrow> (case tags tm of JObject kvs \<Rightarrow> map fst kvs | _ \<Rightarrow> []))"

section \<open>ComplianceAspect\<close>

text \<open>
  The constructor of \<^verbatim>\<open>ComplianceAspect\<close> only configures the cdk-nag library on
  the enclosing stack. The model records the calls it makes, in order, with their arguments:
  \<^verbatim>\<open>Aspects.of(stack).add(new AwsSolutionsChecks({verbose, logIgnores}))\<close> and
  \<^verbatim>\<open>NagSuppressions.addStackSuppressions(stack, suppressions)\<close>. A suppression
  carries the fields the repository supplies, \<^verbatim>\<open>id\<close> and \<^verbatim>\<open>reason\<close>.
\<close>

record NagPackSuppression =
  suppression_id :: string
  reason :: string

record ComplianceAspectProps =
  cprops_strict :: "bool option"
  suppressions :: "NagPackSuppression list option"

record AwsSolutionsChecksProps =
  verbose :: bool
  logIgnores :: bool

datatype stack_call =
    AspectsAdd AwsSolutionsChecksProps
  | AddStackSuppressions "NagPackSuppression list"

definition ComplianceAspect :: "ComplianceAspectProps option \<Rightarrow> stack_call list" where
  "ComplianceAspect props =
     [AspectsAdd \<lparr>verbose = True,
                  logIgnores = (case props of
                                  None \<Rightarrow> False
                                | Some p \<Rightarrow> (case cprops_strict p of None \<Rightarrow> False | Some b \<Rightarrow> b))\<rparr>]
     @ (case props of
          None \<Rightarrow> []
        | Some p \<Rightarrow>
            (case suppressions p of
               None \<Rightarrow> []
             | Some ss \<Rightarrow> if length ss > 0 then [AddStackSuppressions ss] else []))"

section \<open>The tag check is total and the loop is a filter\<close>

lemma hasTag_total:
  "\<exists>v. hasTag tgs k = Inr v \<and> truthy v = (k \<in> set (reflectedKeys tgs))"
proof (cases tgs)
  case None
  then show ?thesis by (simp add: hasTag_def reflectedKeys_def)
next
  case (Some tm)
  then show ?thesis
    by (cases "tags tm") (simp_all add: hasTag_def reflectedKeys_def Let_def)
qed

lemma collectMissingTags_filter:
  "collectMissingTags tgs req acc = Inr (acc @ filter (\<lambda>k. k \<notin> set (reflectedKeys tgs)) req)"
proof (induction req arbitrary: acc)
  case Nil
  show ?case by simp
next
  case (Cons t ts)
  obtain v where v: "hasTag tgs t = Inr v" "truthy v = (t \<in> set (reflectedKeys tgs))"
    using hasTag_total by blast
  show ?case using v Cons.IH by simp
qed

lemma reflectedKeys_subset: "set (reflectedKeys tgs) \<subseteq> set (nodeTagKeys tgs)"
proof (cases tgs)
  case None
  then show ?thesis by (simp add: reflectedKeys_def nodeTagKeys_def)
next
  case (Some tm)
  then show ?thesis
    by (cases "tags tm") (simp_all add: reflectedKeys_def nodeTagKeys_def)
qed

lemma absent_keys_are_collected:
  "filter (\<lambda>k. k \<notin> set (nodeTagKeys tgs)) (filter (\<lambda>k. k \<notin> set (reflectedKeys tgs)) req)
     = filter (\<lambda>k. k \<notin> set (nodeTagKeys tgs)) req"
proof -
  have "filter (\<lambda>k. k \<notin> set (reflectedKeys tgs) \<and> k \<notin> set (nodeTagKeys tgs)) req
          = filter (\<lambda>k. k \<notin> set (nodeTagKeys tgs)) req"
    using reflectedKeys_subset [of tgs] by (intro filter_cong) auto
  then show ?thesis by (simp add: conj_commute)
qed

lemma subseq_singleton_right:
  assumes "subseq xs [y]" and "xs \<noteq> []"
  shows "xs = [y]"
proof (cases xs)
  case Nil
  with assms(2) show ?thesis by simp
next
  case (Cons x xs')
  with assms(1) have xy: "x = y" and rest: "subseq xs' []"
    by (simp_all add: subseq_Cons2_iff split: if_splits)
  from rest have "xs' = []" by (rule list_emb_Nil2)
  with xy Cons show ?thesis by simp
qed


lemma visit_resource:
  assumes "cfnResourceType r \<notin> set (excludeResourceTypes this)"
    and "cfnResourceType r \<notin> set nonTaggableResources"
  shows "visit this (CfnResource r) anns =
     Inr (let named = filter (\<lambda>k. k \<notin> set (reflectedKeys (getResourceTags r))) (requiredTags this);
              msg = missingTagsMessage r named
          in if named = [] \<or> find (\<lambda>x. scope x = nodePath r \<and> message x = msg) anns \<noteq> None
             then anns
             else anns @ [\<lparr>level = (if strict this then Error else Warning),
                            scope = nodePath r, message = msg\<rparr>])"
  using assms
  by (simp add: visit_def collectMissingTags_filter addError_def addWarning_def
        addMessage_def Let_def)

section \<open>Constructs that are not resources\<close>

text \<open>
  C9. For a construct that is not a \<^verbatim>\<open>CfnResource\<close>, \<^verbatim>\<open>visit\<close> returns at once:
  it does not fail and leaves the annotations as they were, whatever the required tags,
  the strict flag and the exclusion list are.
\<close>

theorem visit_non_resource_ignored:
  "visit this (Construct p) anns = Inr anns"
  by (simp add: visit_def)

section \<open>Missing tags of a resource\<close>

text \<open>
  C1 (as amended). For a taggable resource whose type is not excluded, \<^verbatim>\<open>visit\<close> does
  not fail and attaches at most one annotation to the resource. The keys named in its
  message are required keys, in the order of the required-tag configuration, joined by a
  comma and a space, and every required key that is not a key of the tag map of the
  resource (exact string equality, so case-sensitive) is among them, as often as it is
  configured. When no key is named nothing is attached; otherwise the one annotation is
  attached unless the resource carries the same message already.
\<close>

theorem visit_names_absent_tags_in_order:
  assumes "taggable r" and "cfnResourceType r \<notin> set (excludeResourceTypes this)"
  shows "\<exists>named.
           subseq named (requiredTags this)
         \<and> filter (\<lambda>k. k \<notin> set (nodeTagKeys (getResourceTags r))) named
             = filter (\<lambda>k. k \<notin> set (nodeTagKeys (getResourceTags r))) (requiredTags this)
         \<and> visit this (CfnResource r) anns =
             Inr (if named = []
                     \<or> find (\<lambda>x. scope x = nodePath r \<and> message x = missingTagsMessage r named) anns
                         \<noteq> None
                  then anns
                  else anns @ [\<lparr>level = (if strict this then Error else Warning),
                                 scope = nodePath r,
                                 message = missingTagsMessage r named\<rparr>])"
proof -
  let ?named = "filter (\<lambda>k. k \<notin> set (reflectedKeys (getResourceTags r))) (requiredTags this)"
  have nt: "cfnResourceType r \<notin> set nonTaggableResources"
    using assms(1) by (simp add: taggable_def)
  have a: "subseq ?named (requiredTags this)"
    by simp
  have b: "filter (\<lambda>k. k \<notin> set (nodeTagKeys (getResourceTags r))) ?named
             = filter (\<lambda>k. k \<notin> set (nodeTagKeys (getResourceTags r))) (requiredTags this)"
    by (rule absent_keys_are_collected)
  have c: "visit this (CfnResource r) anns =
             Inr (if ?named = []
                     \<or> find (\<lambda>x. scope x = nodePath r \<and> message x = missingTagsMessage r ?named) anns
                         \<noteq> None
                  then anns
                  else anns @ [\<lparr>level = (if strict this then Error else Warning),
                                 scope = nodePath r,
                                 message = missingTagsMessage r ?named\<rparr>])"
    using visit_resource [OF assms(2) nt, of anns] by (simp add: Let_def)
  from a b c show ?thesis by blast
qed

text \<open>
  An instance on a resource whose tag manager holds the tag \<^verbatim>\<open>owner\<close>: that key does not
  satisfy the required key \<^verbatim>\<open>Owner\<close>, which is named in the one annotation.
\<close>

theorem visit_names_absent_tags_in_order_witness:
  "taggable \<lparr>cfnResourceType = ''AWS::S3::Bucket'', nodePath = ''Stack/Bucket'',
             resourceTags = Some \<lparr>tags = JMap [(''owner'', ''x'')]\<rparr>\<rparr>
   \<and> ''AWS::S3::Bucket'' \<notin> set [''AWS::IAM::Role'']
   \<and> visit \<lparr>requiredTags = [''Owner''], strict = True,
             excludeResourceTypes = [''AWS::IAM::Role'']\<rparr>
        (CfnResource \<lparr>cfnResourceType = ''AWS::S3::Bucket'', nodePath = ''Stack/Bucket'',
             resourceTags = Some \<lparr>tags = JMap [(''owner'', ''x'')]\<rparr>\<rparr>) []
      = Inr [\<lparr>level = Error, scope = ''Stack/Bucket'',
              message = ''Risorsa '' @ [CHR 0x27] @ ''Stack/Bucket'' @ [CHR 0x27]
                @ '' (AWS::S3::Bucket) manca dei seguenti tag di documentazione: Owner''\<rparr>]"
proof -
  let ?r = "\<lparr>cfnResourceType = ''AWS::S3::Bucket'', nodePath = ''Stack/Bucket'',
             resourceTags = Some \<lparr>tags = JMap [(''owner'', ''x'')]\<rparr>\<rparr>"
  let ?asp = "\<lparr>requiredTags = [''Owner''], strict = True,
             excludeResourceTypes = [''AWS::IAM::Role'']\<rparr>"
  have h1: "taggable ?r"
    by (simp add: taggable_def nonTaggableResources_def)
  have h2: "cfnResourceType ?r \<notin> set (excludeResourceTypes ?asp)"
    by simp
  have keys: "nodeTagKeys (getResourceTags ?r) = [''owner'']"
    by (simp add: nodeTagKeys_def getResourceTags_def)
  note t = visit_names_absent_tags_in_order [OF h1 h2, of "[]"]
  show ?thesis
    apply (insert t)
    apply (elim exE conjE)
    subgoal premises prems for named
    proof -
      note sub = prems(1)
      note absent = prems(2) [unfolded keys]
      note res = prems(3)
      have ne: "named \<noteq> []"
      proof
        assume "named = []"
        with absent show False by simp
      qed
      from sub have "subseq named [''Owner'']"
        by simp
      then have "named = [''Owner'']"
        using ne by (rule subseq_singleton_right)
      with res have "visit ?asp (CfnResource ?r) [] =
          Inr [\<lparr>level = Error, scope = ''Stack/Bucket'',
                  message = ''Risorsa '' @ [CHR 0x27] @ ''Stack/Bucket'' @ [CHR 0x27]
                    @ '' (AWS::S3::Bucket) manca dei seguenti tag di documentazione: Owner''\<rparr>]"
        by (simp add: missingTagsMessage_def)
      with h1 show ?thesis by simp
    qed
    done
qed

text \<open>
  The claim as first stated asks for one finding per missing key. With two required keys
  missing, the loop collects both, and \<^verbatim>\<open>visit\<close> emits a single annotation naming both.
\<close>

theorem two_missing_tags_one_annotation:
  "collectMissingTags (Some \<lparr>tags = JMap []\<rparr>) [''Owner'', ''Purpose''] []
     = Inr [''Owner'', ''Purpose'']
   \<and> visit \<lparr>requiredTags = [''Owner'', ''Purpose''], strict = False, excludeResourceTypes = []\<rparr>
        (CfnResource \<lparr>cfnResourceType = ''AWS::S3::Bucket'', nodePath = ''Stack/Bucket'',
             resourceTags = Some \<lparr>tags = JMap []\<rparr>\<rparr>) []
      = Inr [\<lparr>level = Warning, scope = ''Stack/Bucket'',
              message = ''Risorsa '' @ [CHR 0x27] @ ''Stack/Bucket'' @ [CHR 0x27]
                @ '' (AWS::S3::Bucket) manca dei seguenti tag di documentazione: Owner, Purpose''\<rparr>]"
  by (simp add: visit_def nonTaggableResources_def getResourceTags_def hasTag_def
        missingTagsMessage_def addWarning_def addMessage_def Let_def)

section \<open>Strict and lenient runs\<close>

text \<open>
  C2. For a fixed construct, configuration and annotation state, visiting with the strict
  flag set and with it cleared emits annotations on the same nodes with the same messages;
  every one is an error in the strict run and a warning in the lenient run. The aspect has
  no finding that is an error in both modes.
\<close>

theorem strict_only_changes_severity:
  "\<exists>ms. visit (this\<lparr>strict := True\<rparr>) node anns
           = Inr (anns @ map (\<lambda>(p, m). \<lparr>level = Error, scope = p, message = m\<rparr>) ms)
      \<and> visit (this\<lparr>strict := False\<rparr>) node anns
           = Inr (anns @ map (\<lambda>(p, m). \<lparr>level = Warning, scope = p, message = m\<rparr>) ms)"
proof (cases node)
  case (Construct p)
  then have "visit (this\<lparr>strict := True\<rparr>) node anns = Inr (anns @ map (\<lambda>(p, m). \<lparr>level = Error, scope = p, message = m\<rparr>) [])"
    and "visit (this\<lparr>strict := False\<rparr>) node anns = Inr (anns @ map (\<lambda>(p, m). \<lparr>level = Warning, scope = p, message = m\<rparr>) [])"
    by (simp_all add: visit_def)
  then show ?thesis by blast
next
  case (CfnResource r)
  let ?missing = "filter (\<lambda>k. k \<notin> set (reflectedKeys (getResourceTags r))) (requiredTags this)"
  let ?ms = "if cfnResourceType r \<in> set (excludeResourceTypes this)
                \<or> cfnResourceType r \<in> set nonTaggableResources \<or> ?missing = []
                \<or> find (\<lambda>x. scope x = nodePath r \<and> message x = missingTagsMessage r ?missing) anns
                    \<noteq> None
             then []
             else [(nodePath r, missingTagsMessage r ?missing)]"
  have "visit (this\<lparr>strict := True\<rparr>) node anns = Inr (anns @ map (\<lambda>(p, m). \<lparr>level = Error, scope = p, message = m\<rparr>) ?ms)"
    and "visit (this\<lparr>strict := False\<rparr>) node anns = Inr (anns @ map (\<lambda>(p, m). \<lparr>level = Warning, scope = p, message = m\<rparr>) ?ms)"
    using CfnResource
    by (simp_all add: visit_def collectMissingTags_filter addError_def addWarning_def
          addMessage_def Let_def)
  then show ?thesis by blast
qed

section \<open>Scope exclusions\<close>

text \<open>
  C3. For a resource that is not taggable, or whose type is in the exclusion list of the
  aspect, \<^verbatim>\<open>visit\<close> emits nothing and does not fail, whatever the tags of the resource
  and the required tags are.
\<close>

theorem non_taggable_or_excluded_yields_nothing:
  assumes "\<not> taggable r \<or> cfnResourceType r \<in> set (excludeResourceTypes this)"
  shows "visit this (CfnResource r) anns = Inr anns"
  using assms by (auto simp: visit_def taggable_def)

text \<open>
  An instance: a CloudFormation output with an empty tag map and two required tags.
\<close>

theorem non_taggable_or_excluded_yields_nothing_witness:
  "\<not> taggable \<lparr>cfnResourceType = ''AWS::CloudFormation::Output'', nodePath = ''Stack/Out'',
                resourceTags = Some \<lparr>tags = JObject []\<rparr>\<rparr>
   \<and> visit \<lparr>requiredTags = [''Owner'', ''Purpose''], strict = True, excludeResourceTypes = []\<rparr>
        (CfnResource \<lparr>cfnResourceType = ''AWS::CloudFormation::Output'', nodePath = ''Stack/Out'',
                resourceTags = Some \<lparr>tags = JObject []\<rparr>\<rparr>) [] = Inr []"
proof -
  have h: "\<not> taggable \<lparr>cfnResourceType = ''AWS::CloudFormation::Output'', nodePath = ''Stack/Out'',
                resourceTags = Some \<lparr>tags = JObject []\<rparr>\<rparr>"
    by (simp add: taggable_def nonTaggableResources_def)
  show ?thesis
    using h non_taggable_or_excluded_yields_nothing
      [of "\<lparr>cfnResourceType = ''AWS::CloudFormation::Output'', nodePath = ''Stack/Out'',
                resourceTags = Some \<lparr>tags = JObject []\<rparr>\<rparr>"
          "\<lparr>requiredTags = [''Owner'', ''Purpose''], strict = True, excludeResourceTypes = []\<rparr>" "[]"]
    by blast
qed

section \<open>Presence is by key\<close>

text \<open>
  C4. A key of the tag map should count as present whatever its value is, the empty
  string included. On a resource whose tag manager holds the tag \<^verbatim>\<open>Owner\<close> with the
  empty string as its value, \<^verbatim>\<open>Object.keys\<close> finds no key on the \<^verbatim>\<open>Map\<close> of the
  manager: \<^verbatim>\<open>hasTag\<close> answers false for \<^verbatim>\<open>Owner\<close>, and \<^verbatim>\<open>visit\<close> reports it
  as missing.
\<close>

theorem held_tag_reported_missing:
  "''Owner'' \<in> set (nodeTagKeys (Some \<lparr>tags = JMap [(''Owner'', [])]\<rparr>))
   \<and> hasTag (Some \<lparr>tags = JMap [(''Owner'', [])]\<rparr>) ''Owner'' = Inr (JBool False)
   \<and> visit \<lparr>requiredTags = [''Owner''], strict = False, excludeResourceTypes = []\<rparr>
        (CfnResource \<lparr>cfnResourceType = ''AWS::S3::Bucket'', nodePath = ''Stack/Bucket'',
             resourceTags = Some \<lparr>tags = JMap [(''Owner'', [])]\<rparr>\<rparr>) []
      = Inr [\<lparr>level = Warning, scope = ''Stack/Bucket'',
              message = ''Risorsa '' @ [CHR 0x27] @ ''Stack/Bucket'' @ [CHR 0x27]
                @ '' (AWS::S3::Bucket) manca dei seguenti tag di documentazione: Owner''\<rparr>]"
  by (simp add: nodeTagKeys_def visit_def nonTaggableResources_def getResourceTags_def
        hasTag_def missingTagsMessage_def addWarning_def addMessage_def Let_def)

section \<open>Absent tag manager\<close>

text \<open>
  C10 (as amended). For a taggable resource whose type is not excluded and which has no
  tag manager, or whose manager has a falsy \<^verbatim>\<open>tags\<close> field, \<^verbatim>\<open>hasTag\<close> does not fail
  and returns a falsy value for every key, which is \<^verbatim>\<open>false\<close> itself when there is no
  manager. So \<^verbatim>\<open>visit\<close> does not fail either and reports every required tag as missing:
  when a tag is required, the one annotation of the resource names all the required tags
  in their order, and it is attached unless the resource carries the same message already.
\<close>

theorem missing_tag_manager_reports_all_required:
  assumes "taggable r" and "cfnResourceType r \<notin> set (excludeResourceTypes this)"
    and "getResourceTags r = None
         \<or> (\<exists>tm. getResourceTags r = Some tm \<and> \<not> truthy (tags tm))"
  shows "hasTag None k = Inr (JBool False)
       \<and> (\<exists>v. hasTag (getResourceTags r) k = Inr v \<and> \<not> truthy v)
       \<and> visit this (CfnResource r) anns =
           Inr (if requiredTags this = []
                   \<or> find (\<lambda>x. scope x = nodePath r
                                \<and> message x = missingTagsMessage r (requiredTags this)) anns
                       \<noteq> None
                then anns
                else anns @ [\<lparr>level = (if strict this then Error else Warning),
                               scope = nodePath r,
                               message = missingTagsMessage r (requiredTags this)\<rparr>])"
proof -
  have nt: "cfnResourceType r \<notin> set nonTaggableResources"
    using assms(1) by (simp add: taggable_def)
  have keys: "reflectedKeys (getResourceTags r) = []"
    using assms(3) by (auto simp: reflectedKeys_def split: js_value.splits)
  have v: "visit this (CfnResource r) anns =
           Inr (if requiredTags this = []
                   \<or> find (\<lambda>x. scope x = nodePath r
                                \<and> message x = missingTagsMessage r (requiredTags this)) anns
                       \<noteq> None
                then anns
                else anns @ [\<lparr>level = (if strict this then Error else Warning),
                               scope = nodePath r,
                               message = missingTagsMessage r (requiredTags this)\<rparr>])"
    using visit_resource [OF assms(2) nt, of anns] by (simp add: keys Let_def)
  have n: "hasTag None k = Inr (JBool False)"
    by (simp add: hasTag_def)
  have h: "\<exists>v. hasTag (getResourceTags r) k = Inr v \<and> \<not> truthy v"
    using hasTag_total [of "getResourceTags r" k] by (simp add: keys)
  from n h v show ?thesis by blast
qed

text \<open>
  An instance: a resource whose \<^verbatim>\<open>tags\<close> property is not a tag manager and has no
  \<^verbatim>\<open>tags\<close> field of its own, with two required tags.
\<close>

theorem missing_tag_manager_reports_all_required_witness:
  "taggable \<lparr>cfnResourceType = ''AWS::IAM::Policy'', nodePath = ''Stack/Policy'',
             resourceTags = Some \<lparr>tags = JUndefined\<rparr>\<rparr>
   \<and> ''AWS::IAM::Policy'' \<notin> set [''AWS::IAM::Role'']
   \<and> \<not> truthy JUndefined
   \<and> hasTag (Some \<lparr>tags = JUndefined\<rparr>) ''Owner'' = Inr JUndefined
   \<and> visit \<lparr>requiredTags = [''Owner'', ''Purpose''], strict = True,
             excludeResourceTypes = [''AWS::IAM::Role'']\<rparr>
        (CfnResource \<lparr>cfnResourceType = ''AWS::IAM::Policy'', nodePath = ''Stack/Policy'',
             resourceTags = Some \<lparr>tags = JUndefined\<rparr>\<rparr>) []
      = Inr [\<lparr>level = Error, scope = ''Stack/Policy'',
              message = ''Risorsa '' @ [CHR 0x27] @ ''Stack/Policy'' @ [CHR 0x27]
                @ '' (AWS::IAM::Policy) manca dei seguenti tag di documentazione: Owner, Purpose''\<rparr>]"
proof -
  let ?r = "\<lparr>cfnResourceType = ''AWS::IAM::Policy'', nodePath = ''Stack/Policy'',
             resourceTags = Some \<lparr>tags = JUndefined\<rparr>\<rparr>"
  let ?asp = "\<lparr>requiredTags = [''Owner'', ''Purpose''], strict = True,
             excludeResourceTypes = [''AWS::IAM::Role'']\<rparr>"
  have g: "getResourceTags ?r = Some \<lparr>tags = JUndefined\<rparr>"
    by (simp add: getResourceTags_def)
  have h1: "taggable ?r"
    by (simp add: taggable_def nonTaggableResources_def)
  have h2: "cfnResourceType ?r \<notin> set (excludeResourceTypes ?asp)"
    by simp
  have h3: "getResourceTags ?r = None
      \<or> (\<exists>tm. getResourceTags ?r = Some tm \<and> \<not> truthy (tags tm))"
    using g by simp
  note t = missing_tag_manager_reports_all_required
             [OF h1 h2 h3, of "''Owner''" "[]", unfolded g]
  show ?thesis
    using h1 t by (simp add: missingTagsMessage_def hasTag_def)
qed

text \<open>
  The claim as first stated has the check return \<^verbatim>\<open>false\<close>. With a manager whose
  \<^verbatim>\<open>tags\<close> field is undefined it returns \<^verbatim>\<open>undefined\<close>.
\<close>

theorem hasTag_undefined_field_not_false:
  "hasTag (Some \<lparr>tags = JUndefined\<rparr>) ''Owner'' = Inr JUndefined
   \<and> hasTag (Some \<lparr>tags = JUndefined\<rparr>) ''Owner'' \<noteq> Inr (JBool False)"
  by (simp add: hasTag_def)

section \<open>The strict flag of ComplianceAspect\<close>

text \<open>
  C7. The constructor passes the strict flag as \<^verbatim>\<open>logIgnores\<close>, the cdk-nag option
  for logging suppressed findings, and passes \<^verbatim>\<open>verbose\<close> as the constant true: setting
  strict changes \<^verbatim>\<open>logIgnores\<close> and nothing else in what the constructor configures.
\<close>

theorem strict_is_wired_to_logIgnores:
  "ComplianceAspect (Some \<lparr>cprops_strict = Some True, suppressions = None\<rparr>)
     = [AspectsAdd \<lparr>verbose = True, logIgnores = True\<rparr>]
   \<and> ComplianceAspect (Some \<lparr>cprops_strict = Some False, suppressions = None\<rparr>)
     = [AspectsAdd \<lparr>verbose = True, logIgnores = False\<rparr>]"
  by (simp add: ComplianceAspect_def)

end
